theory Spec2Isabelle
  imports Main "HOL-Library.Word"
begin

section \<open>The data of \<open>detect_session.hpp\<close>\<close>

text \<open>
  The header declares one class, \<open>detect_session\<close>, with four members (the stream, a
  reference to the SSL context, a shared pointer to the document root and the read
  buffer), a constructor and three member functions \<open>run\<close>, \<open>on_run\<close> and \<open>on_detect\<close>.
  Everything else it touches (Asio's \<open>dispatch\<close>, Beast's \<open>tcp_stream\<close>, \<open>flat_buffer\<close>
  and \<open>async_detect_ssl\<close>, the function \<open>fail\<close> and the two session classes) lives in
  headers that are not part of the source at hand.

  Objects reached through a reference or a shared pointer are named by an address into a
  store, so that "the same object" is equality of addresses and "not mutated" is
  equality of stores.
\<close>

type_synonym byte = "8 word"
type_synonym addr = nat
type_synonym socket_id = nat

text \<open>\<open>beast::error_code\<close>: a value and a category; it tests true when the value is not 0.\<close>

datatype error_code = Error_code (ec_value: int) (ec_category: string)

definition failed :: "error_code \<Rightarrow> bool" where
  "failed ec \<longleftrightarrow> ec_value ec \<noteq> 0"

definition no_error :: error_code where
  "no_error = Error_code 0 ''system''"

definition beast_timeout :: error_code where
  "beast_timeout = Error_code 1 ''boost.beast''"

text \<open>
  \<open>beast::tcp_stream\<close>: the socket it owns (none once it has been moved from) and the
  expiry of its timer as a point on the clock, in seconds (none: the timer never fires).
\<close>

record tcp_stream =
  socket :: "socket_id option"
  expiry :: "nat option"

definition moved_from_stream :: tcp_stream where
  "moved_from_stream = \<lparr>socket = None, expiry = None\<rparr>"

text \<open>
  The members of \<open>detect_session\<close>, in the order of the class (lines 20 to 23):
  \<open>stream_\<close>, \<open>ctx_\<close>, \<open>doc_root_\<close> and \<open>buffer_\<close>, written here without the final
  underscore, which a field name cannot end with.
\<close>

record detect_session =
  stream :: tcp_stream
  ctx :: addr
  doc_root :: addr
  buffer :: "byte list"

text \<open>The two member functions that are bound into completion handlers.\<close>

datatype handler = On_run | On_detect

text \<open>
  The one exception the class can raise: \<open>std::bad_weak_ptr\<close>, thrown by
  \<open>shared_from_this()\<close> on an object that no shared pointer owns.
\<close>

datatype exception = Bad_weak_ptr

text \<open>
  What the class does to the outside, in the order in which it does it: arming the
  stream's timer, starting the detection, calling \<open>fail\<close>, constructing and running one
  of the two sessions (with the arguments of its constructor), and closing the socket
  when a stream that still owns one is destroyed.
\<close>

datatype event =
    Expires_after nat
  | Async_detect_ssl
  | Fail error_code string
  | Ssl_http_session_run tcp_stream addr "byte list" addr
  | Plain_http_session_run tcp_stream "byte list" addr
  | Socket_closed socket_id

text \<open>
  The world one \<open>detect_session\<close> lives in: the object itself, the number of shared
  pointers that own it, the clock, whether the executor of the stream may run a dispatched
  handler in the calling thread, the exception that has left a member function, if any,
  the handlers waiting to be invoked (an \<open>On_run\<close> queued on
  the executor, an \<open>On_detect\<close> held by a detection in progress), the handlers that have
  been invoked, in order, the stores of the SSL
  contexts and of the document roots, and the events so far.
\<close>

record 'ctx world =
  self :: detect_session
  owners :: nat
  clock :: nat
  immediate :: bool
  thrown :: "exception option"
  pending :: "handler list"
  invoked :: "handler list"
  contexts :: "addr \<Rightarrow> 'ctx option"
  doc_roots :: "addr \<Rightarrow> string option"
  trace :: "event list"

definition emit :: "event \<Rightarrow> 'ctx world \<Rightarrow> 'ctx world" where
  "emit e w = w\<lparr>trace := trace w @ [e]\<rparr>"

section \<open>The language and library operations the class uses\<close>

text \<open>
  \<open>shared_from_this()\<close> makes one more owner of an object that is owned already, and
  throws \<open>std::bad_weak_ptr\<close> (the result \<open>None\<close>) on an object that no shared pointer
  owns. An exception leaves the member function at the point where it is thrown: what was
  done before stays done, what comes after does not happen. Destroying a shared pointer
  removes one owner; the last one destroys the object, and the destructor of a stream that
  still owns its socket closes it.
\<close>

definition shared_from_this :: "'ctx world \<Rightarrow> 'ctx world option" where
  "shared_from_this w = (if owners w = 0 then None else Some (w\<lparr>owners := Suc (owners w)\<rparr>))"

definition throw :: "exception \<Rightarrow> 'ctx world \<Rightarrow> 'ctx world" where
  "throw e w = w\<lparr>thrown := Some e\<rparr>"

definition destroy :: "'ctx world \<Rightarrow> 'ctx world" where
  "destroy w =
     (case socket (stream (self w)) of
        None \<Rightarrow> w
      | Some sk \<Rightarrow>
          emit (Socket_closed sk)
            (w\<lparr>self := (self w)\<lparr>stream := (stream (self w))\<lparr>socket := None\<rparr>\<rparr>\<rparr>))"

definition release :: "'ctx world \<Rightarrow> 'ctx world" where
  "release w =
     (if owners w = 0 then w
      else if owners w = 1 then destroy (w\<lparr>owners := 0\<rparr>)
      else w\<lparr>owners := owners w - 1\<rparr>)"

text \<open>
  Modelled from the spec: \<open>tcp_stream::expires_after\<close> (Boost.Beast, not in the source).
  The deadline is fixed relative to the moment of the call.
\<close>

definition expires_after :: "nat \<Rightarrow> 'ctx world \<Rightarrow> 'ctx world" where
  "expires_after secs w =
     emit (Expires_after secs)
       (w\<lparr>self := (self w)\<lparr>stream := (stream (self w))\<lparr>expiry := Some (clock w + secs)\<rparr>\<rparr>\<rparr>)"

text \<open>
  Modelled from the spec: the initiation of \<open>beast::async_detect_ssl\<close> (Boost.Beast, not
  in the source). It returns at once; the operation keeps the handler it was given.
\<close>

definition async_detect_ssl :: "handler \<Rightarrow> 'ctx world \<Rightarrow> 'ctx world" where
  "async_detect_ssl h w = emit Async_detect_ssl (w\<lparr>pending := pending w @ [h]\<rparr>)"

text \<open>
  Modelled from the spec: the function \<open>fail\<close> (declared in a header that is not in the
  source), an observational hook that receives the error and a tag.
\<close>

definition fail :: "error_code \<Rightarrow> string \<Rightarrow> 'ctx world \<Rightarrow> 'ctx world" where
  "fail ec what w = emit (Fail ec what) w"

section \<open>The class\<close>

text \<open>
  The constructor (lines 33 to 38) moves the socket into the stream and stores the two
  references; the buffer is default-constructed, that is, empty.
\<close>

definition new_detect_session :: "socket_id \<Rightarrow> addr \<Rightarrow> addr \<Rightarrow> detect_session" where
  "new_detect_session sk c r =
     \<lparr>stream = \<lparr>socket = Some sk, expiry = None\<rparr>,
      ctx = c, doc_root = r, buffer = []\<rparr>"

text \<open>
  \<open>on_run\<close> (lines 63 to 75) arms the timer, then evaluates the arguments of
  \<open>async_detect_ssl\<close>, among them \<open>shared_from_this()\<close>, and then starts the detection.
\<close>

definition on_run :: "'ctx world \<Rightarrow> 'ctx world" where
  "on_run w =
     (let w1 = expires_after 30 w in
      case shared_from_this w1 of
        None \<Rightarrow> throw Bad_weak_ptr w1
      | Some w2 \<Rightarrow> async_detect_ssl On_detect w2)"

text \<open>
  \<open>run\<close> (lines 47 to 55) binds \<open>on_run\<close> to a new shared pointer, which
  \<open>shared_from_this()\<close> may refuse, and hands it to \<open>net::dispatch\<close> on the executor of the
  stream. \<open>dispatch\<close> (Boost.Asio, not in the
  source) invokes the handler before it returns when the executor allows that in the
  calling thread, and queues it otherwise; a handler that has been invoked is destroyed,
  and its shared pointer with it.
\<close>

definition dispatch_on_run :: "'ctx world \<Rightarrow> 'ctx world" where
  "dispatch_on_run w =
     (if immediate w then release (on_run (w\<lparr>invoked := invoked w @ [On_run]\<rparr>))
      else w\<lparr>pending := pending w @ [On_run]\<rparr>)"

definition run :: "'ctx world \<Rightarrow> 'ctx world" where
  "run w =
     (case shared_from_this w of
        None \<Rightarrow> throw Bad_weak_ptr w
      | Some w1 \<Rightarrow> dispatch_on_run w1)"

text \<open>
  \<open>on_detect\<close> (lines 86 to 107). \<open>std::move\<close> hands the stream and the buffer to the
  constructor of the session, which leaves the members moved-from: a stream without a
  socket and an empty buffer. The two session classes are not in the source; as the spec
  has it, each takes over the connection and the buffer when it is constructed, and its
  construction and start are recorded as one event.
\<close>

definition on_detect :: "error_code \<Rightarrow> bool \<Rightarrow> 'ctx world \<Rightarrow> 'ctx world" where
  "on_detect ec result w =
     (let s = self w in
      if failed ec then fail ec ''detect'' w
      else if result then
        emit (Ssl_http_session_run (stream s) (ctx s) (buffer s) (doc_root s))
          (w\<lparr>self := s\<lparr>stream := moved_from_stream, buffer := []\<rparr>\<rparr>)
      else
        emit (Plain_http_session_run (stream s) (buffer s) (doc_root s))
          (w\<lparr>self := s\<lparr>stream := moved_from_stream, buffer := []\<rparr>\<rparr>))"

section \<open>Completion of the detection, the executor and the listener\<close>

text \<open>
  One completion of a read on the stream: the moment it completes, its error code and the
  bytes it transferred, as the connection delivers them.
\<close>

datatype read_some = Read_some (at: nat) (read_ec: error_code) (bytes: "byte list")

definition expired :: "nat option \<Rightarrow> nat \<Rightarrow> bool" where
  "expired dl t = (case dl of None \<Rightarrow> False | Some d \<Rightarrow> d \<le> t)"

text \<open>
  Modelled from the spec: the composed operation behind \<open>beast::async_detect_ssl\<close> and the
  timer of \<open>beast::tcp_stream\<close> (Boost.Beast, not in the source). The operation looks at
  the buffer; when that decides, it completes without error and with the decision;
  otherwise it reads once more from the stream and appends what arrived to the buffer. A
  read that is still pending when the timer expires is cancelled and the operation
  completes with the timeout error; a read that reports an error completes the operation
  with that error. The classifier \<open>is_hello\<close> (the test for the handshake preamble, with
  \<open>None\<close> for "not enough bytes yet") is a parameter. The result is the error code, the
  decision, the buffer and the number of reads that completed; \<open>None\<close> means that the
  operation never completes.
\<close>

fun detect_ssl_op ::
  "(byte list \<Rightarrow> bool option) \<Rightarrow> nat option \<Rightarrow> read_some list \<Rightarrow> byte list
     \<Rightarrow> (error_code \<times> bool \<times> byte list \<times> nat) option" where
  "detect_ssl_op is_hello dl [] buf =
     (case is_hello buf of
        Some r \<Rightarrow> Some (no_error, r, buf, 0)
      | None \<Rightarrow> (case dl of None \<Rightarrow> None | Some d \<Rightarrow> Some (beast_timeout, False, buf, 0)))"
| "detect_ssl_op is_hello dl (rd # rds) buf =
     (case is_hello buf of
        Some r \<Rightarrow> Some (no_error, r, buf, 0)
      | None \<Rightarrow>
          if expired dl (at rd) then Some (beast_timeout, False, buf, 0)
          else if failed (read_ec rd) then Some (read_ec rd, False, buf @ bytes rd, 1)
          else map_option (\<lambda>(ec, r, b, k). (ec, r, b, Suc k))
                 (detect_ssl_op is_hello dl rds (buf @ bytes rd)))"

text \<open>
  The executor invokes a waiting handler once and destroys it afterwards, which gives up
  the shared pointer bound into it. \<open>On_run\<close> takes no argument; \<open>On_detect\<close> is invoked
  when the detection completes, with its error code and decision, after the operation has
  filled the buffer it was given by reference.
\<close>

fun invoke ::
  "(byte list \<Rightarrow> bool option) \<Rightarrow> read_some list \<Rightarrow> handler \<Rightarrow> 'ctx world
     \<Rightarrow> 'ctx world option" where
  "invoke is_hello rds On_run w = Some (release (on_run (w\<lparr>invoked := invoked w @ [On_run]\<rparr>)))"
| "invoke is_hello rds On_detect w =
     (case detect_ssl_op is_hello (expiry (stream (self w))) rds (buffer (self w)) of
        None \<Rightarrow> None
      | Some (ec, result, buf, k) \<Rightarrow>
          Some (release (on_detect ec result
                  (w\<lparr>self := (self w)\<lparr>buffer := buf\<rparr>,
                     invoked := invoked w @ [On_detect]\<rparr>))))"

fun rank :: "handler \<Rightarrow> nat" where
  "rank On_run = 2"
| "rank On_detect = 1"

definition backlog :: "'ctx world \<Rightarrow> nat" where
  "backlog w = sum_list (map rank (pending w))"

text \<open>
  The executor runs until nothing is waiting, or until the handler at the head waits for
  an operation that never completes, or until an exception leaves a handler.
\<close>

function drain ::
  "(byte list \<Rightarrow> bool option) \<Rightarrow> read_some list \<Rightarrow> 'ctx world \<Rightarrow> 'ctx world" where
  "drain is_hello rds w =
     (case pending w of
        [] \<Rightarrow> w
      | h # hs \<Rightarrow>
          if thrown w \<noteq> None then w
          else
            (case invoke is_hello rds h (w\<lparr>pending := hs\<rparr>) of
               None \<Rightarrow> w
             | Some w' \<Rightarrow> drain is_hello rds w'))"
  by pat_completeness auto

text \<open>
  Modelled from the spec: the listener (not in the source), which constructs a
  \<open>detect_session\<close> for an accepted socket with \<open>make_shared\<close>, calls \<open>run\<close> on it and keeps
  no reference.
\<close>

definition make_shared_detect_session ::
  "bool \<Rightarrow> nat \<Rightarrow> (addr \<Rightarrow> 'ctx option) \<Rightarrow> (addr \<Rightarrow> string option)
     \<Rightarrow> socket_id \<Rightarrow> addr \<Rightarrow> addr \<Rightarrow> 'ctx world" where
  "make_shared_detect_session imm t cs ds sk c r =
     \<lparr>self = new_detect_session sk c r, owners = 1, clock = t, immediate = imm, thrown = None,
      pending = [], invoked = [], contexts = cs, doc_roots = ds, trace = []\<rparr>"

definition advance :: "nat \<Rightarrow> 'ctx world \<Rightarrow> 'ctx world" where
  "advance d w = w\<lparr>clock := clock w + d\<rparr>"

text \<open>
  The life of one \<open>detect_session\<close>: constructed, \<open>run\<close> called \<open>d1\<close> seconds later, the
  temporary shared pointer of the caller destroyed, and the executor running \<open>d2\<close>
  seconds after that.
\<close>

definition serve ::
  "(byte list \<Rightarrow> bool option) \<Rightarrow> read_some list \<Rightarrow> nat \<Rightarrow> nat \<Rightarrow> 'ctx world \<Rightarrow> 'ctx world" where
  "serve is_hello rds d1 d2 w = drain is_hello rds (advance d2 (release (run (advance d1 w))))"

section \<open>What a trace shows\<close>

text \<open>The three outcomes of a detection, as events.\<close>

fun secure_started :: "event \<Rightarrow> bool" where
  "secure_started (Ssl_http_session_run s c b r) = True"
| "secure_started e = False"

fun plain_started :: "event \<Rightarrow> bool" where
  "plain_started (Plain_http_session_run s b r) = True"
| "plain_started e = False"

fun failure_reported :: "event \<Rightarrow> bool" where
  "failure_reported (Fail ec what) = True"
| "failure_reported e = False"

text \<open>
  The configuration a session was constructed with: the address of the SSL context and
  the address of the document root, where the constructor takes one.
\<close>

fun config_passed :: "event \<Rightarrow> addr option \<times> addr option" where
  "config_passed (Ssl_http_session_run s c b r) = (Some c, Some r)"
| "config_passed (Plain_http_session_run s b r) = (None, Some r)"
| "config_passed e = (None, None)"

text \<open>The bytes of the connection, in the order of arrival.\<close>

definition stream_bytes :: "read_some list \<Rightarrow> byte list" where
  "stream_bytes rds = concat (map bytes rds)"

text \<open>
  A classifier decides for good: once a prefix of the stream has been classified, more
  bytes do not change the answer.
\<close>

definition unambiguous :: "(byte list \<Rightarrow> bool option) \<Rightarrow> bool" where
  "unambiguous is_hello \<longleftrightarrow> (\<forall>p q r. is_hello p = Some r \<longrightarrow> is_hello (p @ q) = Some r)"

text \<open>The buffer a session was constructed with.\<close>

fun buffer_passed :: "event \<Rightarrow> byte list option" where
  "buffer_passed (Ssl_http_session_run s c b r) = Some b"
| "buffer_passed (Plain_http_session_run s b r) = Some b"
| "buffer_passed e = None"

text \<open>
  The moment \<open>on_run\<close> executes in the life of a \<open>detect_session\<close> constructed at \<open>t\<close>:
  inside \<open>run\<close> when the executor invokes at once, and when the executor gets to it
  otherwise.
\<close>

definition armed_at :: "bool \<Rightarrow> nat \<Rightarrow> nat \<Rightarrow> nat \<Rightarrow> nat" where
  "armed_at imm t d1 d2 = (if imm then t + d1 else t + d1 + d2)"

text \<open>The world in which the detection is in progress and nothing else is waiting.\<close>

definition detecting ::
  "bool \<Rightarrow> nat \<Rightarrow> nat \<Rightarrow> nat \<Rightarrow> (addr \<Rightarrow> 'ctx option) \<Rightarrow> (addr \<Rightarrow> string option)
     \<Rightarrow> socket_id \<Rightarrow> addr \<Rightarrow> addr \<Rightarrow> 'ctx world" where
  "detecting imm t d1 d2 cs ds sk c r =
     \<lparr>self = \<lparr>stream = \<lparr>socket = Some sk, expiry = Some (armed_at imm t d1 d2 + 30)\<rparr>,
              ctx = c, doc_root = r, buffer = []\<rparr>,
      owners = 1, clock = t + d1 + d2, immediate = imm, thrown = None,
      pending = [On_detect], invoked = [On_run], contexts = cs, doc_roots = ds,
      trace = [Expires_after 30, Async_detect_ssl]\<rparr>"

text \<open>
  A classifier for concrete runs: undecided without bytes, and decided by the first byte
  otherwise, \<open>0x16\<close> being the record type of a handshake.
\<close>

definition handshake_first :: "byte list \<Rightarrow> bool option" where
  "handshake_first bs = (case bs of [] \<Rightarrow> None | b # bs' \<Rightarrow> Some (b = 0x16))"

text \<open>The reads that complete before the deadline \<open>d\<close>.\<close>

definition early :: "nat \<Rightarrow> read_some list \<Rightarrow> read_some list" where
  "early d rds = takeWhile (\<lambda>rd. at rd < d) rds"

section \<open>Termination of the executor\<close>

lemma pending_emit [simp]: "pending (emit e w) = pending w"
  by (simp add: emit_def)

lemma pending_destroy [simp]: "pending (destroy w) = pending w"
  by (simp add: destroy_def split: option.splits)

lemma pending_release [simp]: "pending (release w) = pending w"
  by (simp add: release_def)

lemma pending_on_run [simp]:
  "pending (on_run w) = (if owners w = 0 then pending w else pending w @ [On_detect])"
  by (simp add: on_run_def async_detect_ssl_def shared_from_this_def expires_after_def
        emit_def throw_def Let_def)

lemma pending_on_detect [simp]: "pending (on_detect ec r w) = pending w"
  by (simp add: on_detect_def fail_def Let_def)

lemma invoke_backlog:
  "invoke is_hello rds h (w\<lparr>pending := hs\<rparr>) = Some w' \<Longrightarrow>
     backlog w' < rank h + sum_list (map rank hs)"
  by (cases h) (auto simp: backlog_def split: option.splits)

termination drain
proof (relation "measure (\<lambda>(is_hello, rds, w). backlog w)")
  show "wf (measure (\<lambda>(is_hello, rds, w). backlog w))"
    by simp
next
  fix is_hello :: "byte list \<Rightarrow> bool option" and rds :: "read_some list"
    and w :: "'a world" and h hs w'
  assume head: "pending w = h # hs"
    and "\<not> thrown w \<noteq> None"
    and step: "invoke is_hello rds h (w\<lparr>pending := hs\<rparr>) = Some w'"
  from invoke_backlog [OF step] head
  show "((is_hello, rds, w'), is_hello, rds, w) \<in> measure (\<lambda>(is_hello, rds, w). backlog w)"
    by (simp add: backlog_def)
qed

declare drain.simps [simp del]

section \<open>The life of a session, computed\<close>

lemma on_run_unowned:
  "owners w = 0 \<Longrightarrow> on_run w =
     w\<lparr>self := (self w)\<lparr>stream := (stream (self w))\<lparr>expiry := Some (clock w + 30)\<rparr>\<rparr>,
       thrown := Some Bad_weak_ptr,
       trace := trace w @ [Expires_after 30]\<rparr>"
  by (simp add: on_run_def shared_from_this_def expires_after_def emit_def throw_def)

lemma on_run_eq:
  "0 < owners w \<Longrightarrow> on_run w =
     w\<lparr>self := (self w)\<lparr>stream := (stream (self w))\<lparr>expiry := Some (clock w + 30)\<rparr>\<rparr>,
       owners := Suc (owners w),
       pending := pending w @ [On_detect],
       trace := trace w @ [Expires_after 30, Async_detect_ssl]\<rparr>"
  by (simp add: on_run_def async_detect_ssl_def shared_from_this_def expires_after_def emit_def)

lemma launch_immediate:
  "release (run (advance d1 (make_shared_detect_session True t cs ds sk c r))) =
     (detecting True t d1 0 cs ds sk c r)\<lparr>clock := t + d1\<rparr>"
  by (simp add: run_def dispatch_on_run_def on_run_eq shared_from_this_def release_def
        advance_def make_shared_detect_session_def new_detect_session_def detecting_def
        armed_at_def)

lemma launch_queued:
  "release (run (advance d1 (make_shared_detect_session False t cs ds sk c r))) =
     (make_shared_detect_session False (t + d1) cs ds sk c r)\<lparr>pending := [On_run]\<rparr>"
  by (simp add: run_def dispatch_on_run_def shared_from_this_def release_def
        advance_def make_shared_detect_session_def new_detect_session_def)

lemma serve_detecting:
  "serve is_hello rds d1 d2 (make_shared_detect_session imm t cs ds sk c r) =
     drain is_hello rds (detecting imm t d1 d2 cs ds sk c r)"
proof (cases imm)
  case True
  have "serve is_hello rds d1 d2 (make_shared_detect_session True t cs ds sk c r) =
        drain is_hello rds (detecting True t d1 d2 cs ds sk c r)"
    by (simp only: serve_def launch_immediate) (simp add: advance_def detecting_def armed_at_def)
  with True show ?thesis by (simp only:)
next
  case False
  have "drain is_hello rds
          (advance d2 ((make_shared_detect_session False (t + d1) cs ds sk c r)\<lparr>pending := [On_run]\<rparr>)) =
        drain is_hello rds (detecting False t d1 d2 cs ds sk c r)"
    by (subst drain.simps)
       (simp add: on_run_eq release_def advance_def make_shared_detect_session_def
          new_detect_session_def detecting_def armed_at_def)
  then have "serve is_hello rds d1 d2 (make_shared_detect_session False t cs ds sk c r) =
        drain is_hello rds (detecting False t d1 d2 cs ds sk c r)"
    by (simp only: serve_def launch_queued)
  with False show ?thesis by (simp only:)
qed


lemma failed_no_error [simp]: "\<not> failed no_error"
  by (simp add: failed_def no_error_def)

lemma failed_beast_timeout [simp]: "failed beast_timeout"
  by (simp add: failed_def beast_timeout_def)

lemma detect_completes: "detect_ssl_op is_hello (Some d) rds buf \<noteq> None"
proof (induction rds arbitrary: buf)
  case Nil
  show ?case by (auto split: option.splits)
next
  case (Cons rd rds)
  from Cons.IH [of "buf @ bytes rd"] show ?case
    by (auto split: option.splits)
qed

lemma detect_reads:
  "detect_ssl_op is_hello dl rds buf = Some (ec, res, b, k) \<Longrightarrow>
     k \<le> length rds \<and> b = buf @ concat (map bytes (take k rds))"
proof (induction rds arbitrary: buf k)
  case Nil
  then show ?case by (auto split: option.splits)
next
  case (Cons rd rds)
  show ?case
  proof (cases "is_hello buf = None \<and> \<not> expired dl (at rd) \<and> \<not> failed (read_ec rd)")
    case True
    with Cons.prems obtain k' where
      rec: "detect_ssl_op is_hello dl rds (buf @ bytes rd) = Some (ec, res, b, k')"
      and k: "k = Suc k'"
      by auto
    from Cons.IH [OF rec] k show ?thesis by simp
  next
    case False
    with Cons.prems show ?thesis
      by (auto split: option.splits if_splits)
  qed
qed

lemma detect_decision:
  "detect_ssl_op is_hello dl rds buf = Some (ec, res, b, k) \<Longrightarrow> \<not> failed ec \<Longrightarrow>
     is_hello b = Some res"
proof (induction rds arbitrary: buf k)
  case Nil
  then show ?case by (auto split: option.splits)
next
  case (Cons rd rds)
  show ?case
  proof (cases "is_hello buf = None \<and> \<not> expired dl (at rd) \<and> \<not> failed (read_ec rd)")
    case True
    with Cons.prems obtain k' where
      rec: "detect_ssl_op is_hello dl rds (buf @ bytes rd) = Some (ec, res, b, k')"
      by auto
    from Cons.IH [OF rec Cons.prems(2)] show ?thesis .
  next
    case False
    with Cons.prems show ?thesis
      by (auto split: option.splits if_splits)
  qed
qed

lemma drain_detecting:
  assumes "detect_ssl_op is_hello (Some (armed_at imm t d1 d2 + 30)) rds [] = Some (ec, res, buf, k)"
  shows "drain is_hello rds (detecting imm t d1 d2 cs ds sk c r) =
     release (on_detect ec res
       ((detecting imm t d1 d2 cs ds sk c r)
          \<lparr>self := (self (detecting imm t d1 d2 cs ds sk c r))\<lparr>buffer := buf\<rparr>,
            pending := [], invoked := [On_run, On_detect]\<rparr>))"
proof -
  have idle: "drain is_hello rds w = w" if "pending w = []" for w :: "'a world"
    using that by (subst drain.simps) simp
  show ?thesis
    using assms
    by (subst drain.simps) (simp add: detecting_def idle)
qed

lemma serve_failed:
  assumes "detect_ssl_op is_hello (Some (armed_at imm t d1 d2 + 30)) rds [] = Some (ec, res, buf, k)"
    and "failed ec"
  shows "serve is_hello rds d1 d2 (make_shared_detect_session imm t cs ds sk c r) =
     \<lparr>self = \<lparr>stream = \<lparr>socket = None, expiry = Some (armed_at imm t d1 d2 + 30)\<rparr>,
              ctx = c, doc_root = r, buffer = buf\<rparr>,
      owners = 0, clock = t + d1 + d2, immediate = imm, thrown = None,
      pending = [], invoked = [On_run, On_detect], contexts = cs, doc_roots = ds,
      trace = [Expires_after 30, Async_detect_ssl, Fail ec ''detect'', Socket_closed sk]\<rparr>"
  using assms(2)
  by (simp only: serve_detecting drain_detecting [OF assms(1)])
     (simp add: detecting_def on_detect_def fail_def emit_def release_def destroy_def)

lemma serve_secure:
  assumes "detect_ssl_op is_hello (Some (armed_at imm t d1 d2 + 30)) rds [] = Some (ec, True, buf, k)"
    and "\<not> failed ec"
  shows "serve is_hello rds d1 d2 (make_shared_detect_session imm t cs ds sk c r) =
     \<lparr>self = \<lparr>stream = moved_from_stream, ctx = c, doc_root = r, buffer = []\<rparr>,
      owners = 0, clock = t + d1 + d2, immediate = imm, thrown = None,
      pending = [], invoked = [On_run, On_detect], contexts = cs, doc_roots = ds,
      trace = [Expires_after 30, Async_detect_ssl,
               Ssl_http_session_run
                 \<lparr>socket = Some sk, expiry = Some (armed_at imm t d1 d2 + 30)\<rparr> c buf r]\<rparr>"
  using assms(2)
  by (simp only: serve_detecting drain_detecting [OF assms(1)])
     (simp add: detecting_def on_detect_def emit_def release_def destroy_def
        moved_from_stream_def)

lemma serve_plain:
  assumes "detect_ssl_op is_hello (Some (armed_at imm t d1 d2 + 30)) rds [] = Some (ec, False, buf, k)"
    and "\<not> failed ec"
  shows "serve is_hello rds d1 d2 (make_shared_detect_session imm t cs ds sk c r) =
     \<lparr>self = \<lparr>stream = moved_from_stream, ctx = c, doc_root = r, buffer = []\<rparr>,
      owners = 0, clock = t + d1 + d2, immediate = imm, thrown = None,
      pending = [], invoked = [On_run, On_detect], contexts = cs, doc_roots = ds,
      trace = [Expires_after 30, Async_detect_ssl,
               Plain_http_session_run
                 \<lparr>socket = Some sk, expiry = Some (armed_at imm t d1 d2 + 30)\<rparr> buf r]\<rparr>"
  using assms(2)
  by (simp only: serve_detecting drain_detecting [OF assms(1)])
     (simp add: detecting_def on_detect_def emit_def release_def destroy_def
        moved_from_stream_def)

lemma on_detect_one_event:
  "trace (on_detect ec res w) =
     trace w @ [if failed ec then Fail ec ''detect''
                else if res then Ssl_http_session_run (stream (self w)) (ctx (self w))
                                   (buffer (self w)) (doc_root (self w))
                else Plain_http_session_run (stream (self w)) (buffer (self w))
                       (doc_root (self w))]"
  by (simp add: on_detect_def fail_def emit_def Let_def)

lemma serve_cases:
  obtains (Failed) ec res buf k where
      "detect_ssl_op is_hello (Some (armed_at imm t d1 d2 + 30)) rds [] = Some (ec, res, buf, k)"
      "failed ec"
  | (Secure) ec buf k where
      "detect_ssl_op is_hello (Some (armed_at imm t d1 d2 + 30)) rds [] = Some (ec, True, buf, k)"
      "\<not> failed ec"
  | (Plain) ec buf k where
      "detect_ssl_op is_hello (Some (armed_at imm t d1 d2 + 30)) rds [] = Some (ec, False, buf, k)"
      "\<not> failed ec"
proof -
  from detect_completes [of is_hello "armed_at imm t d1 d2 + 30" rds "[]"]
  obtain ec res buf k where
    "detect_ssl_op is_hello (Some (armed_at imm t d1 d2 + 30)) rds [] = Some (ec, res, buf, k)"
    by auto
  then show thesis
    using Failed Secure Plain by (cases "failed ec"; cases res) auto
qed

lemma stream_bytes_split:
  "stream_bytes rds = stream_bytes (take k rds) @ stream_bytes (drop k rds)"
  by (simp add: stream_bytes_def flip: concat_append map_append)

lemma stream_bytes_take:
  "stream_bytes (take k rds) = take (length (stream_bytes (take k rds))) (stream_bytes rds)"
  using stream_bytes_split [of rds k] by (metis append_eq_conv_conj)

lemma decided_agree:
  assumes "unambiguous is_hello"
    and "is_hello (take n bs) = Some a"
    and "is_hello (take m bs) = Some b"
  shows "a = b"
proof (cases "n \<le> m")
  case True
  then have "take m bs = take n bs @ drop n (take m bs)"
    by (metis append_take_drop_id min.absorb1 take_take)
  with assms(1,2) have "is_hello (take m bs) = Some a"
    unfolding unambiguous_def by metis
  with assms(3) show ?thesis by simp
next
  case False
  then have "take n bs = take m bs @ drop m (take n bs)"
    by (metis append_take_drop_id min.absorb1 take_take nat_le_linear)
  with assms(1,3) have "is_hello (take n bs) = Some b"
    unfolding unambiguous_def by metis
  with assms(2) show ?thesis by simp
qed

lemma detect_result:
  assumes "unambiguous is_hello"
    and "is_hello (take n (stream_bytes rds)) = Some a"
    and "detect_ssl_op is_hello dl rds [] = Some (ec, res, buf, k)"
    and "\<not> failed ec"
  shows "res = a \<and> buf = stream_bytes (take k rds) \<and> k \<le> length rds"
proof -
  from detect_reads [OF assms(3)] have buf: "buf = stream_bytes (take k rds)" and k: "k \<le> length rds"
    by (simp_all add: stream_bytes_def)
  from detect_decision [OF assms(3,4)] have "is_hello buf = Some res" .
  with buf stream_bytes_take [of k rds]
  have "is_hello (take (length buf) (stream_bytes rds)) = Some res" by simp
  from decided_agree [OF assms(1) this assms(2)] buf k show ?thesis by simp
qed

lemma on_detect_secure:
  "\<not> failed ec \<Longrightarrow> on_detect ec True w =
     w\<lparr>self := (self w)\<lparr>stream := moved_from_stream, buffer := []\<rparr>,
       trace := trace w @ [Ssl_http_session_run (stream (self w)) (ctx (self w))
                               (buffer (self w)) (doc_root (self w))]\<rparr>"
  by (simp add: on_detect_def emit_def Let_def)

lemma on_detect_plain:
  "\<not> failed ec \<Longrightarrow> on_detect ec False w =
     w\<lparr>self := (self w)\<lparr>stream := moved_from_stream, buffer := []\<rparr>,
       trace := trace w @ [Plain_http_session_run (stream (self w))
                               (buffer (self w)) (doc_root (self w))]\<rparr>"
  by (simp add: on_detect_def emit_def Let_def)

lemma unambiguous_handshake_first: "unambiguous handshake_first"
  by (auto simp: unambiguous_def handshake_first_def split: list.splits)

lemma on_detect_failed:
  "failed ec \<Longrightarrow> on_detect ec res w = w\<lparr>trace := trace w @ [Fail ec ''detect'']\<rparr>"
  by (simp add: on_detect_def fail_def emit_def Let_def)

lemma run_unowned:
  "owners w = 0 \<Longrightarrow> run w = w\<lparr>thrown := Some Bad_weak_ptr\<rparr>"
  by (simp add: run_def shared_from_this_def throw_def)

lemma run_queued:
  "0 < owners w \<Longrightarrow> \<not> immediate w \<Longrightarrow> run w = w\<lparr>owners := Suc (owners w), pending := pending w @ [On_run]\<rparr>"
  by (simp add: run_def dispatch_on_run_def shared_from_this_def)

lemma run_immediate:
  "0 < owners w \<Longrightarrow> immediate w \<Longrightarrow> run w =
     w\<lparr>self := (self w)\<lparr>stream := (stream (self w))\<lparr>expiry := Some (clock w + 30)\<rparr>\<rparr>,
       owners := Suc (owners w),
       pending := pending w @ [On_detect],
       invoked := invoked w @ [On_run],
       trace := trace w @ [Expires_after 30, Async_detect_ssl]\<rparr>"
  by (simp add: run_def dispatch_on_run_def on_run_eq shared_from_this_def release_def)

lemma detect_timeout:
  assumes "\<forall>j \<le> length (early d rds). is_hello (buf @ stream_bytes (take j (early d rds))) = None"
    and "\<forall>rd \<in> set (early d rds). \<not> failed (read_ec rd)"
  shows "detect_ssl_op is_hello (Some d) rds buf =
     Some (beast_timeout, False, buf @ stream_bytes (early d rds), length (early d rds))"
  using assms
proof (induction rds arbitrary: buf)
  case Nil
  from Nil.prems(1) have "is_hello buf = None"
    by (simp add: early_def stream_bytes_def)
  then show ?case
    by (simp add: early_def stream_bytes_def)
next
  case (Cons rd rds)
  from Cons.prems(1) have undecided: "is_hello buf = None"
    by (auto simp: stream_bytes_def dest: spec [of _ 0])
  show ?case
  proof (cases "at rd < d")
    case False
    with undecided show ?thesis
      by (simp add: early_def stream_bytes_def expired_def)
  next
    case True
    then have e: "early d (rd # rds) = rd # early d rds"
      by (simp add: early_def)
    from Cons.prems(2) e have ok: "\<not> failed (read_ec rd)"
      and rest: "\<forall>x \<in> set (early d rds). \<not> failed (read_ec x)"
      by simp_all
    have "\<forall>j \<le> length (early d rds).
            is_hello ((buf @ bytes rd) @ stream_bytes (take j (early d rds))) = None"
    proof (intro allI impI)
      fix j assume "j \<le> length (early d rds)"
      with e have "Suc j \<le> length (early d (rd # rds))"
        by simp
      with Cons.prems(1) have "is_hello (buf @ stream_bytes (take (Suc j) (early d (rd # rds)))) = None"
        by blast
      with e have "is_hello (buf @ stream_bytes (take (Suc j) (rd # early d rds))) = None"
        by simp
      then show "is_hello ((buf @ bytes rd) @ stream_bytes (take j (early d rds))) = None"
        by (simp add: stream_bytes_def)
    qed
    from Cons.IH [OF this rest] undecided True ok e show ?thesis
      by (simp add: expired_def stream_bytes_def)
  qed
qed

lemma on_detect_config:
  "contexts (on_detect ec res w) = contexts w \<and> doc_roots (on_detect ec res w) = doc_roots w \<and>
   ctx (self (on_detect ec res w)) = ctx (self w) \<and>
   doc_root (self (on_detect ec res w)) = doc_root (self w)"
  by (simp add: on_detect_def fail_def emit_def Let_def)

lemma run_config:
  "contexts (run w) = contexts w \<and> doc_roots (run w) = doc_roots w \<and>
   ctx (self (run w)) = ctx (self w) \<and> doc_root (self (run w)) = doc_root (self w)"
  by (cases "owners w = 0"; cases "immediate w")
     (simp_all add: run_unowned run_queued run_immediate)

lemma serve_life:
  "thrown (serve is_hello rds d1 d2 (make_shared_detect_session imm t cs ds sk c r)) = None \<and>
   pending (serve is_hello rds d1 d2 (make_shared_detect_session imm t cs ds sk c r)) = [] \<and>
   invoked (serve is_hello rds d1 d2 (make_shared_detect_session imm t cs ds sk c r)) =
     [On_run, On_detect] \<and>
   owners (serve is_hello rds d1 d2 (make_shared_detect_session imm t cs ds sk c r)) = 0"
proof (cases rule: serve_cases [of is_hello imm t d1 d2 rds])
  case (Failed ec res buf k)
  show ?thesis by (simp add: serve_failed [OF Failed])
next
  case (Secure ec buf k)
  show ?thesis by (simp add: serve_secure [OF Secure])
next
  case (Plain ec buf k)
  show ?thesis by (simp add: serve_plain [OF Plain])
qed

lemma on_run_cases:
  "on_run w =
     (if owners w = 0 then
        w\<lparr>self := (self w)\<lparr>stream := (stream (self w))\<lparr>expiry := Some (clock w + 30)\<rparr>\<rparr>,
          thrown := Some Bad_weak_ptr,
          trace := trace w @ [Expires_after 30]\<rparr>
      else
        w\<lparr>self := (self w)\<lparr>stream := (stream (self w))\<lparr>expiry := Some (clock w + 30)\<rparr>\<rparr>,
          owners := Suc (owners w),
          pending := pending w @ [On_detect],
          trace := trace w @ [Expires_after 30, Async_detect_ssl]\<rparr>)"
  by (simp add: on_run_unowned on_run_eq)

lemma serve_config:
  "contexts (serve is_hello rds d1 d2 (make_shared_detect_session imm t cs ds sk c r)) = cs \<and>
   doc_roots (serve is_hello rds d1 d2 (make_shared_detect_session imm t cs ds sk c r)) = ds \<and>
   ctx (self (serve is_hello rds d1 d2 (make_shared_detect_session imm t cs ds sk c r))) = c \<and>
   doc_root (self (serve is_hello rds d1 d2 (make_shared_detect_session imm t cs ds sk c r))) = r"
proof (cases rule: serve_cases [of is_hello imm t d1 d2 rds])
  case (Failed ec res buf k)
  show ?thesis by (simp add: serve_failed [OF Failed])
next
  case (Secure ec buf k)
  show ?thesis by (simp add: serve_secure [OF Secure])
next
  case (Plain ec buf k)
  show ?thesis by (simp add: serve_plain [OF Plain])
qed

section \<open>The claims\<close>

text \<open>
  C1. Every execution of the completion callback \<open>on_detect\<close> adds exactly one event,
  and that event is exactly one of the three outcomes: the SSL session started, the plain
  session started, or the failure reported. In the life of every \<open>detect_session\<close>,
  whatever the connection delivers and whenever the executor runs, nothing is left
  waiting at the end, the executor has invoked \<open>on_detect\<close> exactly once, and the trace
  holds exactly one outcome.
\<close>

theorem detector_exactly_one_outcome:
  "(\<exists>e. trace (on_detect ec res w) = trace w @ [e] \<and>
        length (filter secure_started [e]) + length (filter plain_started [e]) +
          length (filter failure_reported [e]) = 1) \<and>
   pending (serve is_hello rds d1 d2 (make_shared_detect_session imm t cs ds sk c r)) = [] \<and>
   count_list (invoked (serve is_hello rds d1 d2 (make_shared_detect_session imm t cs ds sk c r)))
     On_detect = 1 \<and>
   length (filter secure_started
       (trace (serve is_hello rds d1 d2 (make_shared_detect_session imm t cs ds sk c r)))) +
     length (filter plain_started
       (trace (serve is_hello rds d1 d2 (make_shared_detect_session imm t cs ds sk c r)))) +
     length (filter failure_reported
       (trace (serve is_hello rds d1 d2 (make_shared_detect_session imm t cs ds sk c r)))) = 1"
proof -
  have callback: "\<exists>e. trace (on_detect ec res w) = trace w @ [e] \<and>
        length (filter secure_started [e]) + length (filter plain_started [e]) +
          length (filter failure_reported [e]) = 1"
    by (simp add: on_detect_one_event)
  have life: "pending (serve is_hello rds d1 d2 (make_shared_detect_session imm t cs ds sk c r)) = [] \<and>
   count_list (invoked (serve is_hello rds d1 d2 (make_shared_detect_session imm t cs ds sk c r)))
     On_detect = 1 \<and>
   length (filter secure_started
       (trace (serve is_hello rds d1 d2 (make_shared_detect_session imm t cs ds sk c r)))) +
     length (filter plain_started
       (trace (serve is_hello rds d1 d2 (make_shared_detect_session imm t cs ds sk c r)))) +
     length (filter failure_reported
       (trace (serve is_hello rds d1 d2 (make_shared_detect_session imm t cs ds sk c r)))) = 1"
  proof (cases rule: serve_cases [of is_hello imm t d1 d2 rds])
    case (Failed ec res buf k)
    show ?thesis by (simp add: serve_failed [OF Failed])
  next
    case (Secure ec buf k)
    show ?thesis by (simp add: serve_secure [OF Secure])
  next
    case (Plain ec buf k)
    show ?thesis by (simp add: serve_plain [OF Plain])
  qed
  from callback life show ?thesis by (simp only: simp_thms)
qed

text \<open>
  C2. Let the classifier be unambiguous, let some prefix of the bytes of the connection
  be classified as a handshake preamble, and let the detection complete without an error.
  Then the decision is "secure"; \<open>on_detect\<close> constructs and runs the SSL session with the
  stream, the SSL context, the buffer and the document root of the \<open>detect_session\<close>, and
  leaves the stream and the buffer moved-from; and at the end of the life of the
  \<open>detect_session\<close> the SSL session has been started with the socket, the context, the
  bytes read and the document root, the socket has not been closed, and nobody owns the
  \<open>detect_session\<close> any more.
\<close>

theorem secure_stream_starts_ssl_session:
  assumes "unambiguous is_hello"
    and "is_hello (take n (stream_bytes rds)) = Some True"
    and "detect_ssl_op is_hello (Some (armed_at imm t d1 d2 + 30)) rds [] = Some (ec, res, buf, k)"
    and "\<not> failed ec"
  shows "res \<and> buf = stream_bytes (take k rds) \<and>
     on_detect ec res w =
       w\<lparr>self := (self w)\<lparr>stream := moved_from_stream, buffer := []\<rparr>,
         trace := trace w @ [Ssl_http_session_run (stream (self w)) (ctx (self w))
                                 (buffer (self w)) (doc_root (self w))]\<rparr> \<and>
     serve is_hello rds d1 d2 (make_shared_detect_session imm t cs ds sk c r) =
       \<lparr>self = \<lparr>stream = moved_from_stream, ctx = c, doc_root = r, buffer = []\<rparr>,
        owners = 0, clock = t + d1 + d2, immediate = imm, thrown = None,
        pending = [], invoked = [On_run, On_detect], contexts = cs, doc_roots = ds,
        trace = [Expires_after 30, Async_detect_ssl,
                 Ssl_http_session_run
                   \<lparr>socket = Some sk, expiry = Some (armed_at imm t d1 d2 + 30)\<rparr> c buf r]\<rparr>"
proof -
  from detect_result [OF assms] have res: "res = True" and buf: "buf = stream_bytes (take k rds)"
    by simp_all
  from assms(3) res
  have op: "detect_ssl_op is_hello (Some (armed_at imm t d1 d2 + 30)) rds [] = Some (ec, True, buf, k)"
    by simp
  from res buf on_detect_secure [OF assms(4), of w]
    serve_secure [OF op assms(4), of cs ds sk c r]
  show ?thesis by (simp only: simp_thms)
qed

theorem secure_stream_starts_ssl_session_witness:
  "unambiguous handshake_first \<and>
   handshake_first (take 1 (stream_bytes [Read_some 101 no_error [0x16, 3, 1]])) = Some True \<and>
   detect_ssl_op handshake_first (Some (armed_at False 100 0 0 + 30))
     [Read_some 101 no_error [0x16, 3, 1]] [] = Some (no_error, True, [0x16, 3, 1], 1) \<and>
   \<not> failed no_error \<and>
   serve handshake_first [Read_some 101 no_error [0x16, 3, 1]] 0 0
     (make_shared_detect_session False 100 [1 \<mapsto> ''tls''] [2 \<mapsto> ''/srv/www''] 7 1 2) =
     \<lparr>self = \<lparr>stream = moved_from_stream, ctx = 1, doc_root = 2, buffer = []\<rparr>,
      owners = 0, clock = 100, immediate = False, thrown = None,
      pending = [], invoked = [On_run, On_detect],
      contexts = [1 \<mapsto> ''tls''], doc_roots = [2 \<mapsto> ''/srv/www''],
      trace = [Expires_after 30, Async_detect_ssl,
               Ssl_http_session_run \<lparr>socket = Some 7, expiry = Some 130\<rparr> 1 [0x16, 3, 1] 2]\<rparr>"
proof -
  have h1: "unambiguous handshake_first"
    by (rule unambiguous_handshake_first)
  have h2: "handshake_first (take 1 (stream_bytes [Read_some 101 no_error [0x16, 3, 1]])) = Some True"
    by (simp add: handshake_first_def stream_bytes_def)
  have h3: "detect_ssl_op handshake_first (Some (armed_at False 100 0 0 + 30))
     [Read_some 101 no_error [0x16, 3, 1]] [] = Some (no_error, True, [0x16, 3, 1], 1)"
    by (simp add: handshake_first_def armed_at_def expired_def)
  have h4: "\<not> failed no_error"
    by simp
  from secure_stream_starts_ssl_session [OF h1 h2 h3 h4,
      where w = "detecting False 100 0 0 [1 \<mapsto> ''tls''] [2 \<mapsto> ''/srv/www''] 7 1 2"
        and cs = "[1 \<mapsto> ''tls'']" and ds = "[2 \<mapsto> ''/srv/www'']"
        and sk = 7 and c = 1 and r = 2]
    h1 h2 h3 h4
  show ?thesis by (simp add: armed_at_def)
qed


text \<open>
  C3, as stated, fails: the plain session is constructed with the stream, the buffer and
  the document root, and not with the SSL context. When \<open>on_detect\<close> is called without an
  error and with the decision "plain", the session it starts is the plain one, and the
  configuration passed to it is not the pair of the context and the document root of the
  \<open>detect_session\<close>.
\<close>

theorem plain_session_gets_no_context:
  "plain_started (last (trace (on_detect no_error False
     (detecting False 100 0 0 [1 \<mapsto> ''tls''] [2 \<mapsto> ''/srv/www''] 7 1 2)))) \<and>
   config_passed (last (trace (on_detect no_error False
     (detecting False 100 0 0 [1 \<mapsto> ''tls''] [2 \<mapsto> ''/srv/www''] 7 1 2)))) \<noteq>
     (Some (ctx (self (detecting False 100 0 0 [1 \<mapsto> ''tls''] [2 \<mapsto> ''/srv/www''] 7 1 2))),
      Some (doc_root (self (detecting False 100 0 0 [1 \<mapsto> ''tls''] [2 \<mapsto> ''/srv/www''] 7 1 2))))"
  by (simp add: on_detect_one_event detecting_def)

text \<open>
  C3, amended. Let the classifier be unambiguous, let some prefix of the bytes of the
  connection be classified as not a handshake preamble, and let the detection complete
  without an error. Then the decision is "plain"; \<open>on_detect\<close> constructs and runs the
  plain session, once, with the stream, the buffer and the document root of the
  \<open>detect_session\<close>; the SSL context is not among the arguments.
\<close>

theorem plain_stream_starts_plain_session:
  assumes "unambiguous is_hello"
    and "is_hello (take n (stream_bytes rds)) = Some False"
    and "detect_ssl_op is_hello (Some (armed_at imm t d1 d2 + 30)) rds [] = Some (ec, res, buf, k)"
    and "\<not> failed ec"
  shows "\<not> res \<and> buf = stream_bytes (take k rds) \<and>
     on_detect ec res w =
       w\<lparr>self := (self w)\<lparr>stream := moved_from_stream, buffer := []\<rparr>,
         trace := trace w @ [Plain_http_session_run (stream (self w))
                                 (buffer (self w)) (doc_root (self w))]\<rparr> \<and>
     serve is_hello rds d1 d2 (make_shared_detect_session imm t cs ds sk c r) =
       \<lparr>self = \<lparr>stream = moved_from_stream, ctx = c, doc_root = r, buffer = []\<rparr>,
        owners = 0, clock = t + d1 + d2, immediate = imm, thrown = None,
        pending = [], invoked = [On_run, On_detect], contexts = cs, doc_roots = ds,
        trace = [Expires_after 30, Async_detect_ssl,
                 Plain_http_session_run
                   \<lparr>socket = Some sk, expiry = Some (armed_at imm t d1 d2 + 30)\<rparr> buf r]\<rparr> \<and>
     config_passed (Plain_http_session_run
                   \<lparr>socket = Some sk, expiry = Some (armed_at imm t d1 d2 + 30)\<rparr> buf r) =
       (None, Some r)"
proof -
  from detect_result [OF assms] have res: "res = False" and buf: "buf = stream_bytes (take k rds)"
    by simp_all
  from assms(3) res
  have op: "detect_ssl_op is_hello (Some (armed_at imm t d1 d2 + 30)) rds [] = Some (ec, False, buf, k)"
    by simp
  from res buf on_detect_plain [OF assms(4), of w]
    serve_plain [OF op assms(4), of cs ds sk c r]
  show ?thesis by (simp only: simp_thms config_passed.simps)
qed

theorem plain_stream_starts_plain_session_witness:
  "unambiguous handshake_first \<and>
   handshake_first (take 1 (stream_bytes [Read_some 101 no_error [0x47, 0x45, 0x54]])) = Some False \<and>
   detect_ssl_op handshake_first (Some (armed_at False 100 0 0 + 30))
     [Read_some 101 no_error [0x47, 0x45, 0x54]] [] = Some (no_error, False, [0x47, 0x45, 0x54], 1) \<and>
   \<not> failed no_error \<and>
   serve handshake_first [Read_some 101 no_error [0x47, 0x45, 0x54]] 0 0
     (make_shared_detect_session False 100 [1 \<mapsto> ''tls''] [2 \<mapsto> ''/srv/www''] 7 1 2) =
     \<lparr>self = \<lparr>stream = moved_from_stream, ctx = 1, doc_root = 2, buffer = []\<rparr>,
      owners = 0, clock = 100, immediate = False, thrown = None,
      pending = [], invoked = [On_run, On_detect],
      contexts = [1 \<mapsto> ''tls''], doc_roots = [2 \<mapsto> ''/srv/www''],
      trace = [Expires_after 30, Async_detect_ssl,
               Plain_http_session_run \<lparr>socket = Some 7, expiry = Some 130\<rparr> [0x47, 0x45, 0x54] 2]\<rparr>"
proof -
  have h1: "unambiguous handshake_first"
    by (rule unambiguous_handshake_first)
  have h2: "handshake_first (take 1 (stream_bytes [Read_some 101 no_error [0x47, 0x45, 0x54]])) = Some False"
    by (simp add: handshake_first_def stream_bytes_def)
  have h3: "detect_ssl_op handshake_first (Some (armed_at False 100 0 0 + 30))
     [Read_some 101 no_error [0x47, 0x45, 0x54]] [] = Some (no_error, False, [0x47, 0x45, 0x54], 1)"
    by (simp add: handshake_first_def armed_at_def expired_def)
  have h4: "\<not> failed no_error"
    by simp
  from plain_stream_starts_plain_session [OF h1 h2 h3 h4,
      where w = "detecting False 100 0 0 [1 \<mapsto> ''tls''] [2 \<mapsto> ''/srv/www''] 7 1 2"
        and cs = "[1 \<mapsto> ''tls'']" and ds = "[2 \<mapsto> ''/srv/www'']"
        and sk = 7 and c = 1 and r = 2]
    h1 h2 h3 h4
  show ?thesis by (simp add: armed_at_def)
qed

text \<open>
  C4. When the detection completes with an error, be it a transport error or the
  timeout, \<open>on_detect\<close> calls \<open>fail\<close> with the error and the tag \<open>detect\<close> and does nothing
  else: no session is constructed. The \<open>detect_session\<close> still owns the socket, the
  handler held the last shared pointer to it, and so the socket is closed when the handler
  is destroyed. The trace of the whole life is: timer armed, detection started, failure
  reported, socket closed; nothing is written to the peer.
\<close>

theorem detection_failure_reports_and_closes:
  assumes "detect_ssl_op is_hello (Some (armed_at imm t d1 d2 + 30)) rds [] = Some (ec, res, buf, k)"
    and "failed ec"
  shows "on_detect ec res w = w\<lparr>trace := trace w @ [Fail ec ''detect'']\<rparr> \<and>
     serve is_hello rds d1 d2 (make_shared_detect_session imm t cs ds sk c r) =
       \<lparr>self = \<lparr>stream = \<lparr>socket = None, expiry = Some (armed_at imm t d1 d2 + 30)\<rparr>,
                ctx = c, doc_root = r, buffer = buf\<rparr>,
        owners = 0, clock = t + d1 + d2, immediate = imm, thrown = None,
        pending = [], invoked = [On_run, On_detect], contexts = cs, doc_roots = ds,
        trace = [Expires_after 30, Async_detect_ssl, Fail ec ''detect'', Socket_closed sk]\<rparr>"
  using on_detect_failed [OF assms(2), of res w] serve_failed [OF assms, of cs ds sk c r]
  by (simp only: simp_thms)

theorem detection_failure_reports_and_closes_witness:
  "detect_ssl_op handshake_first (Some (armed_at True 100 5 0 + 30))
     [Read_some 110 (Error_code 2 ''asio.misc'') []] [] =
     Some (Error_code 2 ''asio.misc'', False, [], 1) \<and>
   failed (Error_code 2 ''asio.misc'') \<and>
   serve handshake_first [Read_some 110 (Error_code 2 ''asio.misc'') []] 5 0
     (make_shared_detect_session True 100 [1 \<mapsto> ''tls''] [2 \<mapsto> ''/srv/www''] 7 1 2) =
     \<lparr>self = \<lparr>stream = \<lparr>socket = None, expiry = Some 135\<rparr>, ctx = 1, doc_root = 2, buffer = []\<rparr>,
      owners = 0, clock = 105, immediate = True, thrown = None,
      pending = [], invoked = [On_run, On_detect],
      contexts = [1 \<mapsto> ''tls''], doc_roots = [2 \<mapsto> ''/srv/www''],
      trace = [Expires_after 30, Async_detect_ssl, Fail (Error_code 2 ''asio.misc'') ''detect'',
               Socket_closed 7]\<rparr>"
proof -
  have h1: "detect_ssl_op handshake_first (Some (armed_at True 100 5 0 + 30))
     [Read_some 110 (Error_code 2 ''asio.misc'') []] [] =
     Some (Error_code 2 ''asio.misc'', False, [], 1)"
    by (simp add: handshake_first_def armed_at_def expired_def failed_def)
  have h2: "failed (Error_code 2 ''asio.misc'')"
    by (simp add: failed_def)
  from detection_failure_reports_and_closes [OF h1 h2,
      where w = "detecting True 100 5 0 [1 \<mapsto> ''tls''] [2 \<mapsto> ''/srv/www''] 7 1 2"
        and cs = "[1 \<mapsto> ''tls'']" and ds = "[2 \<mapsto> ''/srv/www'']"
        and sk = 7 and c = 1 and r = 2]
    h1 h2
  show ?thesis by (simp add: armed_at_def)
qed

text \<open>
  C5. The buffer of a new \<open>detect_session\<close> is empty; \<open>run\<close> and \<open>on_run\<close> leave it as it
  is; the detection appends to it what each completed read transferred, in order. When
  the detection completes without an error after \<open>k\<close> reads, \<open>on_detect\<close> hands the buffer,
  as it is, to the session it constructs and is left with an empty one; so the one session
  started in the life of the \<open>detect_session\<close> receives exactly the bytes of the first \<open>k\<close>
  reads, each once and in the order of arrival.
\<close>

theorem handler_buffer_is_bytes_read:
  assumes "detect_ssl_op is_hello (Some (armed_at imm t d1 d2 + 30)) rds [] = Some (ec, res, buf, k)"
    and "\<not> failed ec"
  shows "buffer (new_detect_session sk c r) = [] \<and>
     buffer (self (run w)) = buffer (self w) \<and>
     buffer (self (on_run w)) = buffer (self w) \<and>
     k \<le> length rds \<and> buf = stream_bytes (take k rds) \<and>
     buffer_passed (last (trace (on_detect ec res w))) = Some (buffer (self w)) \<and>
     buffer (self (on_detect ec res w)) = [] \<and>
     buffer_passed (last (trace (serve is_hello rds d1 d2
         (make_shared_detect_session imm t cs ds sk c r)))) = Some (stream_bytes (take k rds)) \<and>
     length (filter secure_started (trace (serve is_hello rds d1 d2
         (make_shared_detect_session imm t cs ds sk c r)))) +
       length (filter plain_started (trace (serve is_hello rds d1 d2
         (make_shared_detect_session imm t cs ds sk c r)))) = 1"
proof -
  have fresh: "buffer (new_detect_session sk c r) = []"
    by (simp add: new_detect_session_def)
  have untouched: "buffer (self (run w)) = buffer (self w) \<and> buffer (self (on_run w)) = buffer (self w)"
    by (cases "owners w = 0"; cases "immediate w")
       (simp_all add: run_unowned run_queued run_immediate on_run_unowned on_run_eq)
  from detect_reads [OF assms(1)]
  have reads: "k \<le> length rds \<and> buf = stream_bytes (take k rds)"
    by (simp add: stream_bytes_def)
  have moved: "buffer_passed (last (trace (on_detect ec res w))) = Some (buffer (self w)) \<and>
     buffer (self (on_detect ec res w)) = []"
    using assms(2) by (cases res) (simp_all add: on_detect_secure on_detect_plain)
  have life: "buffer_passed (last (trace (serve is_hello rds d1 d2
         (make_shared_detect_session imm t cs ds sk c r)))) = Some buf \<and>
     length (filter secure_started (trace (serve is_hello rds d1 d2
         (make_shared_detect_session imm t cs ds sk c r)))) +
       length (filter plain_started (trace (serve is_hello rds d1 d2
         (make_shared_detect_session imm t cs ds sk c r)))) = 1"
  proof (cases res)
    case True
    with assms(1)
    have op: "detect_ssl_op is_hello (Some (armed_at imm t d1 d2 + 30)) rds [] = Some (ec, True, buf, k)"
      by simp
    show ?thesis by (simp add: serve_secure [OF op assms(2)])
  next
    case False
    with assms(1)
    have op: "detect_ssl_op is_hello (Some (armed_at imm t d1 d2 + 30)) rds [] = Some (ec, False, buf, k)"
      by simp
    show ?thesis by (simp add: serve_plain [OF op assms(2)])
  qed
  from fresh untouched reads moved life show ?thesis
    by simp
qed

theorem handler_buffer_is_bytes_read_witness:
  "detect_ssl_op handshake_first (Some (armed_at False 100 1 2 + 30))
     [Read_some 104 no_error [], Read_some 110 no_error [0x16], Read_some 111 no_error [3, 1]] [] =
     Some (no_error, True, [0x16], 2) \<and>
   \<not> failed no_error \<and>
   buffer_passed (last (trace (serve handshake_first
       [Read_some 104 no_error [], Read_some 110 no_error [0x16], Read_some 111 no_error [3, 1]] 1 2
       (make_shared_detect_session False 100 [1 \<mapsto> ''tls''] [2 \<mapsto> ''/srv/www''] 7 1 2)))) =
     Some [0x16]"
proof -
  have h1: "detect_ssl_op handshake_first (Some (armed_at False 100 1 2 + 30))
     [Read_some 104 no_error [], Read_some 110 no_error [0x16], Read_some 111 no_error [3, 1]] [] =
     Some (no_error, True, [0x16], 2)"
    by (simp add: handshake_first_def armed_at_def expired_def)
  have h2: "\<not> failed no_error"
    by simp
  from handler_buffer_is_bytes_read [OF h1 h2,
      where w = "detecting False 100 1 2 [1 \<mapsto> ''tls''] [2 \<mapsto> ''/srv/www''] 7 1 2"
        and cs = "[1 \<mapsto> ''tls'']" and ds = "[2 \<mapsto> ''/srv/www'']"
        and sk = 7 and c = 1 and r = 2]
    h1 h2
  show ?thesis by (simp add: stream_bytes_def)
qed


text \<open>
  C6. \<open>on_run\<close> first sets the expiry of the stream to 30 seconds after the moment it
  executes and then, on an object that a shared pointer owns, starts the detection, and
  does nothing else; on an object that no shared pointer owns, the timer is armed all the
  same and \<open>std::bad_weak_ptr\<close> is thrown before any read is issued. In the life of a
  \<open>detect_session\<close> the object is owned whenever \<open>on_run\<close> executes. Let the reads that
  complete before that deadline report no error and never give the classifier enough
  bytes to decide. Then the detection completes with the timeout error, whatever arrives
  later; \<open>on_detect\<close> reports the failure; the socket is closed; and the trace of the whole
  life shows the timer armed once and the detection started once: the deadline is not
  renewed and the read is not tried again.
\<close>

theorem deadline_thirty_seconds_hard:
  assumes "\<forall>j \<le> length (early (armed_at imm t d1 d2 + 30) rds).
             is_hello (stream_bytes (take j (early (armed_at imm t d1 d2 + 30) rds))) = None"
    and "\<forall>rd \<in> set (early (armed_at imm t d1 d2 + 30) rds). \<not> failed (read_ec rd)"
  shows "on_run w =
       (if owners w = 0 then
          w\<lparr>self := (self w)\<lparr>stream := (stream (self w))\<lparr>expiry := Some (clock w + 30)\<rparr>\<rparr>,
            thrown := Some Bad_weak_ptr,
            trace := trace w @ [Expires_after 30]\<rparr>
        else
          w\<lparr>self := (self w)\<lparr>stream := (stream (self w))\<lparr>expiry := Some (clock w + 30)\<rparr>\<rparr>,
            owners := Suc (owners w),
            pending := pending w @ [On_detect],
            trace := trace w @ [Expires_after 30, Async_detect_ssl]\<rparr>) \<and>
     serve is_hello rds d1 d2 (make_shared_detect_session imm t cs ds sk c r) =
       \<lparr>self = \<lparr>stream = \<lparr>socket = None, expiry = Some (armed_at imm t d1 d2 + 30)\<rparr>,
                ctx = c, doc_root = r,
                buffer = stream_bytes (early (armed_at imm t d1 d2 + 30) rds)\<rparr>,
        owners = 0, clock = t + d1 + d2, immediate = imm, thrown = None,
        pending = [], invoked = [On_run, On_detect], contexts = cs, doc_roots = ds,
        trace = [Expires_after 30, Async_detect_ssl, Fail beast_timeout ''detect'',
                 Socket_closed sk]\<rparr>"
proof -
  from assms(1)
  have "\<forall>j \<le> length (early (armed_at imm t d1 d2 + 30) rds).
          is_hello ([] @ stream_bytes (take j (early (armed_at imm t d1 d2 + 30) rds))) = None"
    by simp
  from detect_timeout [OF this assms(2)]
  have op: "detect_ssl_op is_hello (Some (armed_at imm t d1 d2 + 30)) rds [] =
     Some (beast_timeout, False, stream_bytes (early (armed_at imm t d1 d2 + 30) rds),
           length (early (armed_at imm t d1 d2 + 30) rds))"
    by simp
  from on_run_cases [of w] serve_failed [OF op failed_beast_timeout, of cs ds sk c r]
  show ?thesis by (simp only: simp_thms)
qed

theorem deadline_thirty_seconds_hard_witness:
  "early (armed_at False 100 0 3 + 30)
     [Read_some 110 no_error [], Read_some 133 no_error [0x16]] = [Read_some 110 no_error []] \<and>
   serve handshake_first [Read_some 110 no_error [], Read_some 133 no_error [0x16]] 0 3
     (make_shared_detect_session False 100 [1 \<mapsto> ''tls''] [2 \<mapsto> ''/srv/www''] 7 1 2) =
     \<lparr>self = \<lparr>stream = \<lparr>socket = None, expiry = Some 133\<rparr>, ctx = 1, doc_root = 2, buffer = []\<rparr>,
      owners = 0, clock = 103, immediate = False, thrown = None,
      pending = [], invoked = [On_run, On_detect],
      contexts = [1 \<mapsto> ''tls''], doc_roots = [2 \<mapsto> ''/srv/www''],
      trace = [Expires_after 30, Async_detect_ssl, Fail beast_timeout ''detect'',
               Socket_closed 7]\<rparr>"
proof -
  have e: "early (armed_at False 100 0 3 + 30)
             [Read_some 110 no_error [], Read_some 133 no_error [0x16]] =
           [Read_some 110 no_error []]"
    by (simp add: early_def armed_at_def)
  have h1: "\<forall>j \<le> length (early (armed_at False 100 0 3 + 30)
                      [Read_some 110 no_error [], Read_some 133 no_error [0x16]]).
      handshake_first (stream_bytes (take j (early (armed_at False 100 0 3 + 30)
          [Read_some 110 no_error [], Read_some 133 no_error [0x16]]))) = None"
  proof (intro allI impI)
    fix j
    have "stream_bytes (take j [Read_some 110 no_error []]) = []"
      by (cases j) (simp_all add: stream_bytes_def)
    then show "handshake_first (stream_bytes (take j (early (armed_at False 100 0 3 + 30)
          [Read_some 110 no_error [], Read_some 133 no_error [0x16]]))) = None"
      by (simp add: e handshake_first_def)
  qed
  have h2: "\<forall>rd \<in> set (early (armed_at False 100 0 3 + 30)
                    [Read_some 110 no_error [], Read_some 133 no_error [0x16]]).
      \<not> failed (read_ec rd)"
    by (simp add: e)
  from deadline_thirty_seconds_hard [OF h1 h2,
      where w = "detecting False 100 0 3 [1 \<mapsto> ''tls''] [2 \<mapsto> ''/srv/www''] 7 1 2"
        and cs = "[1 \<mapsto> ''tls'']" and ds = "[2 \<mapsto> ''/srv/www'']"
        and sk = 7 and c = 1 and r = 2]
    e
  show ?thesis by (simp add: early_def armed_at_def stream_bytes_def)
qed

text \<open>
  C7, as stated, fails: \<open>run\<close> hands \<open>on_run\<close> to \<open>net::dispatch\<close>, which invokes it before
  returning when the executor allows that in the calling thread. In such a world the timer
  is armed and the detection is started inside \<open>run\<close>.
\<close>

theorem run_executes_on_run_inline:
  "trace (make_shared_detect_session True 100 [1 \<mapsto> ''tls''] [2 \<mapsto> ''/srv/www''] 7 1 2) = [] \<and>
   trace (run (make_shared_detect_session True 100 [1 \<mapsto> ''tls''] [2 \<mapsto> ''/srv/www''] 7 1 2)) =
     [Expires_after 30, Async_detect_ssl] \<and>
   stream (self (run (make_shared_detect_session True 100 [1 \<mapsto> ''tls''] [2 \<mapsto> ''/srv/www''] 7 1 2))) =
     \<lparr>socket = Some 7, expiry = Some 130\<rparr>"
  by (simp add: run_immediate make_shared_detect_session_def new_detect_session_def)

text \<open>
  C7, amended. On a \<open>detect_session\<close> that a shared pointer owns, \<open>run\<close> binds \<open>on_run\<close>
  to one more shared pointer and dispatches it, once. When the executor does not invoke at
  once, \<open>run\<close> only queues \<open>on_run\<close>: no timer is armed, no detection is started, no event
  happens. When it does, \<open>on_run\<close> executes inside \<open>run\<close>: the timer is armed and the
  detection is started, but not awaited: \<open>on_detect\<close> stays waiting, and no session is
  started and no failure is reported inside \<open>run\<close>. On an object that no shared pointer
  owns, \<open>run\<close> throws \<open>std::bad_weak_ptr\<close> and does nothing else. And \<open>run\<close> is safe to
  invoke exactly once: in the life of a \<open>detect_session\<close> made by \<open>make_shared\<close>, on which
  \<open>run\<close> is called once, no exception is thrown, \<open>on_run\<close> and \<open>on_detect\<close> are invoked
  once each, in that order, nothing is left waiting, and the object is released.
\<close>

theorem run_dispatches_on_run:
  "(owners w = 0 \<longrightarrow> run w = w\<lparr>thrown := Some Bad_weak_ptr\<rparr>) \<and>
   (0 < owners w \<and> \<not> immediate w \<longrightarrow>
      run w = w\<lparr>owners := Suc (owners w), pending := pending w @ [On_run]\<rparr>) \<and>
   (0 < owners w \<and> immediate w \<longrightarrow>
      run w =
        w\<lparr>self := (self w)\<lparr>stream := (stream (self w))\<lparr>expiry := Some (clock w + 30)\<rparr>\<rparr>,
          owners := Suc (owners w),
          pending := pending w @ [On_detect],
          invoked := invoked w @ [On_run],
          trace := trace w @ [Expires_after 30, Async_detect_ssl]\<rparr>) \<and>
   thrown (serve is_hello rds d1 d2 (make_shared_detect_session imm t cs ds sk c r)) = None \<and>
   pending (serve is_hello rds d1 d2 (make_shared_detect_session imm t cs ds sk c r)) = [] \<and>
   invoked (serve is_hello rds d1 d2 (make_shared_detect_session imm t cs ds sk c r)) =
     [On_run, On_detect] \<and>
   owners (serve is_hello rds d1 d2 (make_shared_detect_session imm t cs ds sk c r)) = 0"
proof -
  have unowned: "owners w = 0 \<longrightarrow> run w = w\<lparr>thrown := Some Bad_weak_ptr\<rparr>"
    by (simp add: run_unowned)
  have queued: "0 < owners w \<and> \<not> immediate w \<longrightarrow>
      run w = w\<lparr>owners := Suc (owners w), pending := pending w @ [On_run]\<rparr>"
    using run_queued [of w] by blast
  have inline: "0 < owners w \<and> immediate w \<longrightarrow>
      run w =
        w\<lparr>self := (self w)\<lparr>stream := (stream (self w))\<lparr>expiry := Some (clock w + 30)\<rparr>\<rparr>,
          owners := Suc (owners w),
          pending := pending w @ [On_detect],
          invoked := invoked w @ [On_run],
          trace := trace w @ [Expires_after 30, Async_detect_ssl]\<rparr>"
    using run_immediate [of w] by blast
  from unowned queued inline serve_life [of is_hello rds d1 d2 imm t cs ds sk c r]
  show ?thesis by (simp only: simp_thms)
qed

theorem run_dispatches_on_run_witness:
  "0 < owners (make_shared_detect_session False 100 [1 \<mapsto> ''tls''] [2 \<mapsto> ''/srv/www''] 7 1 2) \<and>
   \<not> immediate (make_shared_detect_session False 100 [1 \<mapsto> ''tls''] [2 \<mapsto> ''/srv/www''] 7 1 2) \<and>
   run (make_shared_detect_session False 100 [1 \<mapsto> ''tls''] [2 \<mapsto> ''/srv/www''] 7 1 2) =
     \<lparr>self = new_detect_session 7 1 2, owners = 2, clock = 100, immediate = False,
      thrown = None, pending = [On_run], invoked = [], contexts = [1 \<mapsto> ''tls''],
      doc_roots = [2 \<mapsto> ''/srv/www''], trace = []\<rparr> \<and>
   0 < owners (make_shared_detect_session True 100 [1 \<mapsto> ''tls''] [2 \<mapsto> ''/srv/www''] 7 1 2) \<and>
   immediate (make_shared_detect_session True 100 [1 \<mapsto> ''tls''] [2 \<mapsto> ''/srv/www''] 7 1 2) \<and>
   run (make_shared_detect_session True 100 [1 \<mapsto> ''tls''] [2 \<mapsto> ''/srv/www''] 7 1 2) =
     \<lparr>self = \<lparr>stream = \<lparr>socket = Some 7, expiry = Some 130\<rparr>, ctx = 1, doc_root = 2,
              buffer = []\<rparr>,
      owners = 2, clock = 100, immediate = True, thrown = None,
      pending = [On_detect], invoked = [On_run], contexts = [1 \<mapsto> ''tls''],
      doc_roots = [2 \<mapsto> ''/srv/www''],
      trace = [Expires_after 30, Async_detect_ssl]\<rparr> \<and>
   owners ((make_shared_detect_session False 100 [1 \<mapsto> ''tls''] [2 \<mapsto> ''/srv/www''] 7 1 2)
             \<lparr>owners := 0\<rparr>) = 0 \<and>
   run ((make_shared_detect_session False 100 [1 \<mapsto> ''tls''] [2 \<mapsto> ''/srv/www''] 7 1 2)
          \<lparr>owners := 0\<rparr>) =
     \<lparr>self = new_detect_session 7 1 2, owners = 0, clock = 100, immediate = False,
      thrown = Some Bad_weak_ptr, pending = [], invoked = [], contexts = [1 \<mapsto> ''tls''],
      doc_roots = [2 \<mapsto> ''/srv/www''], trace = []\<rparr>"
  using run_dispatches_on_run
      [where w = "make_shared_detect_session False 100 [1 \<mapsto> ''tls''] [2 \<mapsto> ''/srv/www''] 7 1 2",
        THEN conjunct2, THEN conjunct1]
    run_dispatches_on_run
      [where w = "make_shared_detect_session True 100 [1 \<mapsto> ''tls''] [2 \<mapsto> ''/srv/www''] 7 1 2",
        THEN conjunct2, THEN conjunct2, THEN conjunct1]
    run_dispatches_on_run
      [where w = "(make_shared_detect_session False 100 [1 \<mapsto> ''tls''] [2 \<mapsto> ''/srv/www''] 7 1 2)
             \<lparr>owners := 0\<rparr>",
        THEN conjunct1]
  by (simp add: make_shared_detect_session_def new_detect_session_def)

text \<open>
  C9, as stated, fails for the SSL context on the plain path: in the life of a
  \<open>detect_session\<close> with context 1 and document root 2 whose connection sends \<open>GET\<close>, no
  event passes the context on; the session that is started is given the document root
  only.
\<close>

theorem plain_path_passes_document_root_only:
  "(Some 1, Some 2) \<notin> set (map config_passed
     (trace (serve handshake_first [Read_some 101 no_error [0x47, 0x45, 0x54]] 0 0
        (make_shared_detect_session False 100 [1 \<mapsto> ''tls''] [2 \<mapsto> ''/srv/www''] 7 1 2)))) \<and>
   config_passed (last
     (trace (serve handshake_first [Read_some 101 no_error [0x47, 0x45, 0x54]] 0 0
        (make_shared_detect_session False 100 [1 \<mapsto> ''tls''] [2 \<mapsto> ''/srv/www''] 7 1 2)))) =
     (None, Some 2)"
proof -
  have op: "detect_ssl_op handshake_first (Some (armed_at False 100 0 0 + 30))
     [Read_some 101 no_error [0x47, 0x45, 0x54]] [] = Some (no_error, False, [0x47, 0x45, 0x54], 1)"
    by (simp add: handshake_first_def armed_at_def expired_def)
  show ?thesis
    by (simp add: serve_plain [OF op failed_no_error])
qed

text \<open>
  C9, amended. The constructor stores the two references it is given. \<open>run\<close>, \<open>on_run\<close> and
  \<open>on_detect\<close> change neither the store of the SSL contexts nor the store of the document
  roots, nor the references the \<open>detect_session\<close> holds. The session that \<open>on_detect\<close>
  starts is given the very references of the \<open>detect_session\<close>: the context and the
  document root for the SSL session, the document root alone for the plain session. At
  the end of the life of a \<open>detect_session\<close> both stores are as they were.
\<close>

theorem shared_configuration_untouched:
  "ctx (new_detect_session sk c r) = c \<and> doc_root (new_detect_session sk c r) = r \<and>
   contexts (run w) = contexts w \<and> doc_roots (run w) = doc_roots w \<and>
   ctx (self (run w)) = ctx (self w) \<and> doc_root (self (run w)) = doc_root (self w) \<and>
   contexts (on_run w) = contexts w \<and> doc_roots (on_run w) = doc_roots w \<and>
   ctx (self (on_run w)) = ctx (self w) \<and> doc_root (self (on_run w)) = doc_root (self w) \<and>
   contexts (on_detect ec res w) = contexts w \<and> doc_roots (on_detect ec res w) = doc_roots w \<and>
   ctx (self (on_detect ec res w)) = ctx (self w) \<and>
   doc_root (self (on_detect ec res w)) = doc_root (self w) \<and>
   config_passed (last (trace (on_detect ec res w))) =
     (if failed ec then (None, None)
      else if res then (Some (ctx (self w)), Some (doc_root (self w)))
      else (None, Some (doc_root (self w)))) \<and>
   contexts (serve is_hello rds d1 d2 (make_shared_detect_session imm t cs ds sk c r)) = cs \<and>
   doc_roots (serve is_hello rds d1 d2 (make_shared_detect_session imm t cs ds sk c r)) = ds"
proof -
  have made: "ctx (new_detect_session sk c r) = c \<and> doc_root (new_detect_session sk c r) = r"
    by (simp add: new_detect_session_def)
  have armed: "contexts (on_run w) = contexts w \<and> doc_roots (on_run w) = doc_roots w \<and>
     ctx (self (on_run w)) = ctx (self w) \<and> doc_root (self (on_run w)) = doc_root (self w)"
    by (simp add: on_run_cases)
  have passed: "config_passed (last (trace (on_detect ec res w))) =
     (if failed ec then (None, None)
      else if res then (Some (ctx (self w)), Some (doc_root (self w)))
      else (None, Some (doc_root (self w))))"
    by (simp add: on_detect_one_event)
  from made armed passed run_config [of w] on_detect_config [of ec res w]
    serve_config [of is_hello rds d1 d2 imm t cs ds sk c r]
  show ?thesis by (simp only: simp_thms)
qed

theorem shared_configuration_untouched_witness:
  "contexts (serve handshake_first [Read_some 101 no_error [0x16, 3, 1]] 0 0
     (make_shared_detect_session False 100 [1 \<mapsto> ''tls''] [2 \<mapsto> ''/srv/www''] 7 1 2)) =
     [1 \<mapsto> ''tls''] \<and>
   doc_roots (serve handshake_first [Read_some 101 no_error [0x16, 3, 1]] 0 0
     (make_shared_detect_session False 100 [1 \<mapsto> ''tls''] [2 \<mapsto> ''/srv/www''] 7 1 2)) =
     [2 \<mapsto> ''/srv/www''] \<and>
   config_passed (last (trace (on_detect no_error True
     (detecting False 100 0 0 [1 \<mapsto> ''tls''] [2 \<mapsto> ''/srv/www''] 7 1 2)))) = (Some 1, Some 2)"
  using shared_configuration_untouched
    [where w = "detecting False 100 0 0 [1 \<mapsto> ''tls''] [2 \<mapsto> ''/srv/www''] 7 1 2"
       and ec = no_error and res = True
       and is_hello = handshake_first and rds = "[Read_some 101 no_error [0x16, 3, 1]]"
       and ?d1.0 = 0 and ?d2.0 = 0 and imm = False and t = 100
       and cs = "[1 \<mapsto> ''tls'']" and ds = "[2 \<mapsto> ''/srv/www'']" and sk = 7 and c = 1 and r = 2]
  by (simp add: detecting_def)

text \<open>
  C10. Constructing a \<open>detect_session\<close> causes no event, leaves nothing waiting and
  leaves the timer of the stream unarmed, and so does the passing of time before \<open>run\<close> is
  called. The timer is armed by \<open>on_run\<close>, for 30 seconds after the moment \<open>on_run\<close>
  executes: inside \<open>run\<close> when the executor invokes at once, and when the executor gets to
  \<open>on_run\<close> otherwise. The detection of the whole life runs under that deadline, which
  does not depend on how long before the call of \<open>run\<close> the object was constructed.
\<close>

theorem construction_arms_nothing:
  "trace (make_shared_detect_session imm t cs ds sk c r) = [] \<and>
   pending (make_shared_detect_session imm t cs ds sk c r) = [] \<and>
   invoked (make_shared_detect_session imm t cs ds sk c r) = [] \<and>
   stream (self (make_shared_detect_session imm t cs ds sk c r)) =
     \<lparr>socket = Some sk, expiry = None\<rparr> \<and>
   expiry (stream (self (advance d1 (make_shared_detect_session imm t cs ds sk c r)))) = None \<and>
   expiry (stream (self (run (advance d1 (make_shared_detect_session imm t cs ds sk c r))))) =
     (if imm then Some (t + d1 + 30) else None) \<and>
   expiry (stream (self (on_run (advance d2
       (release (run (advance d1 (make_shared_detect_session False t cs ds sk c r)))))))) =
     Some (t + d1 + d2 + 30) \<and>
   serve is_hello rds d1 d2 (make_shared_detect_session imm t cs ds sk c r) =
     drain is_hello rds (detecting imm t d1 d2 cs ds sk c r) \<and>
   expiry (stream (self (detecting imm t d1 d2 cs ds sk c r))) =
     Some ((if imm then t + d1 else t + d1 + d2) + 30)"
proof -
  have made: "trace (make_shared_detect_session imm t cs ds sk c r) = [] \<and>
     pending (make_shared_detect_session imm t cs ds sk c r) = [] \<and>
     invoked (make_shared_detect_session imm t cs ds sk c r) = [] \<and>
     stream (self (make_shared_detect_session imm t cs ds sk c r)) =
       \<lparr>socket = Some sk, expiry = None\<rparr> \<and>
     expiry (stream (self (advance d1 (make_shared_detect_session imm t cs ds sk c r)))) = None"
    by (simp add: make_shared_detect_session_def new_detect_session_def advance_def)
  have called: "expiry (stream (self (run (advance d1 (make_shared_detect_session imm t cs ds sk c r))))) =
     (if imm then Some (t + d1 + 30) else None)"
    by (cases imm)
       (simp_all add: run_queued run_immediate make_shared_detect_session_def
          new_detect_session_def advance_def)
  have queued: "expiry (stream (self (on_run (advance d2
       (release (run (advance d1 (make_shared_detect_session False t cs ds sk c r)))))))) =
     Some (t + d1 + d2 + 30)"
    by (simp only: launch_queued)
       (simp add: on_run_eq advance_def make_shared_detect_session_def
          new_detect_session_def)
  have started: "expiry (stream (self (detecting imm t d1 d2 cs ds sk c r))) =
     Some ((if imm then t + d1 else t + d1 + d2) + 30)"
    by (simp add: detecting_def armed_at_def)
  from made called queued started serve_detecting [of is_hello rds d1 d2 imm t cs ds sk c r]
  show ?thesis by (simp only: simp_thms)
qed

theorem construction_arms_nothing_witness:
  "expiry (stream (self (run (advance 50
      (make_shared_detect_session True 100 [1 \<mapsto> ''tls''] [2 \<mapsto> ''/srv/www''] 7 1 2))))) =
     Some 180 \<and>
   trace (make_shared_detect_session True 100 [1 \<mapsto> ''tls''] [2 \<mapsto> ''/srv/www''] 7 1 2) = []"
  using construction_arms_nothing
    [where imm = True and t = 100 and ?d1.0 = 50 and ?d2.0 = 0 and sk = 7 and c = 1 and r = 2
       and cs = "[1 \<mapsto> ''tls'']" and ds = "[2 \<mapsto> ''/srv/www'']"
       and is_hello = handshake_first and rds = "[]"]
  by simp

end
